theory Spec2Isabelle
  imports Main "HOL-Library.AList"
begin

section \<open>wecom-push: the credentialed sender of wecom.go\<close>

text \<open>
  The sender of \<^verbatim>\<open>wecom.go\<close> keeps an access token and an alternation flag in a
  struct shared through a pointer. Every function below takes the struct and the
  network and returns both, together with the events it emitted in program order:
  lock operations, accesses to the flag, diagnostics and HTTP round trips.
\<close>

subsection \<open>JSON values and response bodies\<close>

text \<open>
  A JSON value as \<^verbatim>\<open>encoding/json\<close> scans it. Strings are byte strings (UTF-8).
  \<open>JInt i\<close> is a number literal without fraction and exponent. A literal with
  a fraction or an exponent is kept apart: \<open>JReal m e\<close> is the literal whose value
  is \<open>m\<close> times ten to the power \<open>e\<close>, and Go refuses to store it in an
  \<^verbatim>\<open>int\<close> whatever its value. An object keeps its members in the order of the
  text.
\<close>

datatype json =
    JNull
  | JBool bool
  | JInt int
  | JReal int int
  | JStr string
  | JArr "json list"
  | JObj "(string \<times> json) list"

text \<open>
  The bytes of a response body: either a text that the scanner of
  \<^verbatim>\<open>encoding/json\<close> refuses (a syntax error, or nesting beyond its depth limit),
  or a JSON value.
\<close>

datatype body = NotJson string | Json json

text \<open>
  Go's \<^verbatim>\<open>error\<close> values of this file: what \<^verbatim>\<open>net/http\<close> and \<^verbatim>\<open>io\<close> return
  (request construction, transport, reading the body), the two errors of
  \<^verbatim>\<open>json.Unmarshal\<close>, and \<^verbatim>\<open>errors.New(msg)\<close>, which holds the message only.
\<close>

datatype error =
    NetError string
  | SyntaxError
  | UnmarshalTypeError string
  | ErrorString string

type_synonym reply = "error + body"

subsection \<open>Decoding, as \<^verbatim>\<open>json.Unmarshal\<close> does it\<close>

datatype kind = KInt | KString

definition fits_int64 :: "int \<Rightarrow> bool" where
  "fits_int64 i = (- (2 ^ 63) \<le> i \<and> i < 2 ^ 63)"

fun assignable :: "kind \<Rightarrow> json \<Rightarrow> bool" where
  "assignable KInt (JInt i) = fits_int64 i"
| "assignable KString (JStr s) = True"
| "assignable k v = False"

text \<open>
  Struct fields are matched to object keys under Unicode simple case folding
  (\<^verbatim>\<open>foldName\<close> of \<^verbatim>\<open>encoding/json\<close>). The field names of this file are ASCII,
  and only two characters outside ASCII fold to an ASCII letter: U+017F (bytes
  C5 BF) to \<open>s\<close> and U+212A (bytes E2 84 AA) to \<open>k\<close>. Every other byte outside
  ASCII is kept, so that a key holding one matches no field, as in Go.
\<close>

definition lower_ascii :: "char \<Rightarrow> char" where
  "lower_ascii c =
     (let k = (of_char c :: nat) in if 65 \<le> k \<and> k \<le> 90 then char_of (k + 32) else c)"

definition is_long_s :: "char \<Rightarrow> char \<Rightarrow> bool" where
  "is_long_s a b = ((of_char a :: nat) = 197 \<and> (of_char b :: nat) = 191)"

definition is_kelvin :: "char \<Rightarrow> char \<Rightarrow> char \<Rightarrow> bool" where
  "is_kelvin a b c =
     ((of_char a :: nat) = 226 \<and> (of_char b :: nat) = 132 \<and> (of_char c :: nat) = 170)"

fun fold_name :: "string \<Rightarrow> string" where
  "fold_name (a # b # c # cs) =
     (if is_kelvin a b c then CHR ''k'' # fold_name cs
      else if is_long_s a b then CHR ''s'' # fold_name (c # cs)
      else lower_ascii a # fold_name (b # c # cs))"
| "fold_name [a, b] =
     (if is_long_s a b then [CHR ''s''] else lower_ascii a # fold_name [b])"
| "fold_name [a] = [lower_ascii a]"
| "fold_name [] = []"

text \<open>
  The members of an object are stored one after the other into the fields of the
  struct described by \<open>fs\<close>: an unknown key is skipped, \<^verbatim>\<open>null\<close> leaves the field,
  a value of the wrong type is an \<^verbatim>\<open>UnmarshalTypeError\<close>. The result lists the
  stores in order; a later store to a field overwrites an earlier one.
\<close>

fun stores :: "(string \<times> kind) list \<Rightarrow> (string \<times> json) list \<Rightarrow> error + (string \<times> json) list" where
  "stores fs [] = Inr []"
| "stores fs ((k, v) # kvs) =
     (case map_of fs (fold_name k) of
        None \<Rightarrow> stores fs kvs
      | Some kd \<Rightarrow>
          (case v of
             JNull \<Rightarrow> stores fs kvs
           | _ \<Rightarrow>
               if assignable kd v
               then (case stores fs kvs of
                       Inl e \<Rightarrow> Inl e
                     | Inr st \<Rightarrow> Inr ((fold_name k, v) # st))
               else Inl (UnmarshalTypeError (fold_name k))))"

definition unmarshal_struct :: "(string \<times> kind) list \<Rightarrow> body \<Rightarrow> error + (string \<times> json) list" where
  "unmarshal_struct fs b =
     (case b of
        NotJson s \<Rightarrow> Inl SyntaxError
      | Json JNull \<Rightarrow> Inr []
      | Json (JObj kvs) \<Rightarrow> stores fs kvs
      | Json v \<Rightarrow> Inl (UnmarshalTypeError ''struct''))"

definition int_field :: "string \<Rightarrow> (string \<times> json) list \<Rightarrow> int" where
  "int_field f st = (case map_of (rev st) f of Some (JInt i) \<Rightarrow> i | _ \<Rightarrow> 0)"

definition string_field :: "string \<Rightarrow> (string \<times> json) list \<Rightarrow> string" where
  "string_field f st = (case map_of (rev st) f of Some (JStr s) \<Rightarrow> s | _ \<Rightarrow> [])"

text \<open>\<^verbatim>\<open>type accessResp struct\<close> (lines 16-21).\<close>

record accessResp =
  Errcode :: int
  Errmsg :: string
  AccessToken :: string
  ExpiresIn :: int

definition unmarshal_accessResp :: "body \<Rightarrow> error + accessResp" where
  "unmarshal_accessResp b =
     (case unmarshal_struct
             [(''errcode'', KInt), (''errmsg'', KString),
              (''access_token'', KString), (''expires_in'', KInt)] b of
        Inl e \<Rightarrow> Inl e
      | Inr st \<Rightarrow>
          Inr \<lparr>Errcode = int_field ''errcode'' st, Errmsg = string_field ''errmsg'' st,
               AccessToken = string_field ''access_token'' st,
               ExpiresIn = int_field ''expires_in'' st\<rparr>)"

text \<open>The anonymous struct \<^verbatim>\<open>r\<close> of \<^verbatim>\<open>send\<close> (lines 97-100).\<close>

record status =
  ErrCode :: int
  ErrMsg :: string

definition unmarshal_status :: "body \<Rightarrow> error + status" where
  "unmarshal_status b =
     (case unmarshal_struct [(''errcode'', KInt), (''errmsg'', KString)] b of
        Inl e \<Rightarrow> Inl e
      | Inr st \<Rightarrow> Inr \<lparr>ErrCode = int_field ''errcode'' st, ErrMsg = string_field ''errmsg'' st\<rparr>)"

text \<open>
  Decoding into \<^verbatim>\<open>any\<close> turns every number, at any depth, into a
  \<^verbatim>\<open>float64\<close> with \<^verbatim>\<open>strconv.ParseFloat\<close>, which fails when the literal rounds
  to infinity: when its magnitude reaches the midpoint between the largest
  \<^verbatim>\<open>float64\<close> and \<open>2 ^ 1024\<close>. A literal too small for a \<^verbatim>\<open>float64\<close>
  becomes 0 without an error.
\<close>

definition in_float64 :: "int \<Rightarrow> int \<Rightarrow> bool" where
  "in_float64 m e =
     (if 0 \<le> e then \<bar>m\<bar> * 10 ^ nat e < 2 ^ 1024 - 2 ^ 970
      else \<bar>m\<bar> < (2 ^ 1024 - 2 ^ 970) * 10 ^ nat (- e))"

fun float64_numbers :: "json \<Rightarrow> bool" where
  "float64_numbers (JInt i) = in_float64 i 0"
| "float64_numbers (JReal m e) = in_float64 m e"
| "float64_numbers (JArr vs) = list_all float64_numbers vs"
| "float64_numbers (JObj kvs) = list_all float64_numbers (map snd kvs)"
| "float64_numbers v = True"

text \<open>
  Decoding into the empty \<^verbatim>\<open>map[string]any\<close> of \<^verbatim>\<open>getMediaID\<close> (lines 239-242):
  an object decodes unless it holds a number outside \<^verbatim>\<open>float64\<close>. The map is
  read with \<open>map_index\<close>, where the last member of a key wins.
\<close>

definition unmarshal_map :: "body \<Rightarrow> error + (string \<times> json) list" where
  "unmarshal_map b =
     (case b of
        NotJson s \<Rightarrow> Inl SyntaxError
      | Json JNull \<Rightarrow> Inr []
      | Json (JObj kvs) \<Rightarrow>
          if float64_numbers (JObj kvs) then Inr kvs else Inl (UnmarshalTypeError ''number'')
      | Json v \<Rightarrow> Inl (UnmarshalTypeError ''map''))"

definition map_index :: "(string \<times> json) list \<Rightarrow> string \<Rightarrow> json option" where
  "map_index m k = map_of (rev m) k"

text \<open>
  A map literal: the entries are stored in order, a repeated key overwrites.
\<close>

definition map_lit :: "(string \<times> json) list \<Rightarrow> (string \<times> json) list" where
  "map_lit kvs = foldl (\<lambda>m (k, v). AList.update k v m) [] kvs"

subsection \<open>Requests, the network, events\<close>

datatype payload =
    NoBody
  | JsonBody json
  | FormFile string string string

text \<open>
  An outbound POST. \<open>url\<close> is the string the source builds itself; \<open>query\<close> are
  the values it hands to \<^verbatim>\<open>url.Values\<close> for encoding. The multipart boundary of
  an upload is chosen by \<^verbatim>\<open>mime/multipart\<close> and is left out of the header.
\<close>

record request =
  url :: string
  query :: "(string \<times> string) list"
  headers :: "(string \<times> string) list"
  payload :: payload

text \<open>
  The network is a script of replies for each of the two kinds of endpoint, read
  in order. A reply \<open>Inl e\<close> stands for any failure of \<^verbatim>\<open>http.NewRequest\<close>,
  \<^verbatim>\<open>http.DefaultClient.Do\<close> or \<^verbatim>\<open>io.ReadAll\<close>; when the script is used up the
  network is down.
\<close>

record net =
  token_replies :: "reply list"
  api_replies :: "reply list"

definition next_reply :: "reply list \<Rightarrow> reply \<times> reply list" where
  "next_reply rs = (case rs of [] \<Rightarrow> (Inl (NetError ''EOF''), []) | r # rest \<Rightarrow> (r, rest))"

datatype diagnostic = TokenExpired | TokenInvalid | TokenWrong

datatype event =
    InitLock
  | InitUnlock
  | PushLock
  | PushUnlock
  | FlagRead bool
  | FlagWrite bool
  | Println diagnostic
  | TokenCall request reply
  | ApiCall request reply

subsection \<open>The sender\<close>

text \<open>\<^verbatim>\<open>type wecom struct\<close> (lines 23-30); the two mutexes appear as events.\<close>

record wecom =
  corpid :: string
  corpsecret :: string
  accessToken :: string
  isFirstAccessTokenErr :: bool

definition New :: "string \<Rightarrow> string \<Rightarrow> wecom" where
  "New cid csecret =
     \<lparr>corpid = cid, corpsecret = csecret, accessToken = [], isFirstAccessTokenErr = True\<rparr>"

definition token_request :: "wecom \<Rightarrow> request" where
  "token_request w =
     \<lparr>url = ''https://qyapi.weixin.qq.com/cgi-bin/gettoken'',
      query = [(''corpid'', corpid w), (''corpsecret'', corpsecret w)],
      headers = [(''accept'', ''application/json'')],
      payload = NoBody\<rparr>"

text \<open>\<^verbatim>\<open>getAccessToken\<close> (lines 42-75): \<open>None\<close> is Go's \<^verbatim>\<open>nil\<close> error.\<close>

definition getAccessToken :: "wecom \<Rightarrow> net \<Rightarrow> error option \<times> wecom \<times> net \<times> event list" where
  "getAccessToken w n =
     (case next_reply (token_replies n) of
        (out, rest) \<Rightarrow>
          (let n' = n\<lparr>token_replies := rest\<rparr>; ev = [TokenCall (token_request w) out] in
           case out of
             Inl e \<Rightarrow> (Some e, w, n', ev)
           | Inr b \<Rightarrow>
               (case unmarshal_accessResp b of
                  Inl e \<Rightarrow> (Some e, w, n', ev)
                | Inr a \<Rightarrow>
                    if Errcode a \<noteq> 0 then (Some (ErrorString (Errmsg a)), w, n', ev)
                    else (None, w\<lparr>accessToken := AccessToken a\<rparr>, n', ev))))"

text \<open>The closure at the head of \<^verbatim>\<open>send\<close> (lines 78-88), under the init lock.\<close>

definition ensure :: "wecom \<Rightarrow> net \<Rightarrow> error option \<times> wecom \<times> net \<times> event list" where
  "ensure w n =
     (if accessToken w = []
      then (case getAccessToken w n of
              (r, w', n', ev) \<Rightarrow> (r, w', n', [InitLock] @ ev @ [InitUnlock]))
      else (None, w, n, [InitLock, InitUnlock]))"

text \<open>
  Calling \<^verbatim>\<open>getResp()\<close> (line 93): the closure builds its request from the struct
  as it is at the time of the call, and the network answers.
\<close>

definition call_api :: "(wecom \<Rightarrow> request) \<Rightarrow> wecom \<Rightarrow> net \<Rightarrow> reply \<times> net \<times> event list" where
  "call_api getResp w n =
     (case next_reply (api_replies n) of
        (out, rest) \<Rightarrow> (out, n\<lparr>api_replies := rest\<rparr>, [ApiCall (getResp w) out]))"

definition credential_error :: "int \<Rightarrow> bool" where
  "credential_error c = (c = 42001 \<or> c = 40014 \<or> c = 41001)"

text \<open>The \<^verbatim>\<open>switch\<close> of lines 110-117; it has no default case.\<close>

definition classify :: "int \<Rightarrow> event list" where
  "classify c =
     (if c = 42001 then [Println TokenExpired]
      else if c = 40014 then [Println TokenInvalid]
      else if c = 41001 then [Println TokenWrong]
      else [])"

text \<open>
  One pass through the body of \<^verbatim>\<open>send\<close> (lines 78-139), up to the point where it
  either returns or calls itself again with the same \<^verbatim>\<open>getResp\<close>.
\<close>

datatype step = Done "error + body" | Retry

definition attempt :: "(wecom \<Rightarrow> request) \<Rightarrow> wecom \<Rightarrow> net \<Rightarrow> step \<times> wecom \<times> net \<times> event list" where
  "attempt getResp w n =
     (case ensure w n of
        (Some e, w1, n1, ev1) \<Rightarrow> (Done (Inl e), w1, n1, ev1)
      | (None, w1, n1, ev1) \<Rightarrow>
          (case call_api getResp w1 n1 of
             (Inl e, n2, ev2) \<Rightarrow> (Done (Inl e), w1, n2, ev1 @ ev2)
           | (Inr resp, n2, ev2) \<Rightarrow>
               (case unmarshal_status resp of
                  Inl e \<Rightarrow> (Done (Inl e), w1, n2, ev1 @ ev2)
                | Inr r \<Rightarrow>
                    if ErrCode r = 0
                    then (Done (Inr resp), w1, n2, ev1 @ ev2 @ [PushLock, PushUnlock])
                    else if ErrCode r = 42001 \<or> ErrCode r = 40014 \<or> ErrCode r = 41001
                    then
                      (if isFirstAccessTokenErr w1
                       then
                         (case getAccessToken (w1\<lparr>isFirstAccessTokenErr := False\<rparr>) n2 of
                            (Some e, w3, n3, ev3) \<Rightarrow>
                              (Done (Inl e), w3, n3,
                               ev1 @ ev2 @ [PushLock, FlagRead True] @ classify (ErrCode r)
                                 @ [FlagWrite False] @ ev3 @ [PushUnlock])
                          | (None, w3, n3, ev3) \<Rightarrow>
                              (Retry, w3, n3,
                               ev1 @ ev2 @ [PushLock, FlagRead True] @ classify (ErrCode r)
                                 @ [FlagWrite False] @ ev3 @ [PushUnlock]))
                       else
                         (Retry, w1\<lparr>isFirstAccessTokenErr := True\<rparr>, n2,
                          ev1 @ ev2 @ [PushLock, FlagRead False, PushUnlock, FlagWrite True]))
                    else
                      (Done (Inl (ErrorString (ErrMsg r))), w1, n2,
                       ev1 @ ev2 @ [PushLock, PushUnlock]))))"

text \<open>
  \<^verbatim>\<open>send\<close> (lines 77-142): after a retry the result of the inner call is returned
  as it is (lines 124-127, 131-134, 141). The source calls itself once for every
  response that carries a credential-error code, with no bound of its own; here
  every such call has read one more reply of the script, which is what the
  termination proof measures.
\<close>

function send :: "(wecom \<Rightarrow> request) \<Rightarrow> wecom \<Rightarrow> net \<Rightarrow> (error + body) \<times> wecom \<times> net \<times> event list" where
  "send getResp w n =
     (case attempt getResp w n of
        (Done r, w', n', ev) \<Rightarrow> (r, w', n', ev)
      | (Retry, w', n', ev) \<Rightarrow>
          (case send getResp w' n' of
             (r, w'', n'', ev') \<Rightarrow> (r, w'', n'', ev @ ev')))"
  by pat_completeness auto
termination
  by (relation "measure (\<lambda>(g, w, n). length (api_replies n))")
     (auto simp: attempt_def ensure_def getAccessToken_def call_api_def next_reply_def Let_def
        split: prod.splits sum.splits if_splits option.splits list.splits)

declare send.simps [simp del]

subsection \<open>Text messages\<close>

text \<open>\<^verbatim>\<open>type TextInfo struct\<close> (lines 144-148).\<close>

record TextInfo =
  Touser :: string
  AgentID :: int
  Content :: string

text \<open>
  The request of the closure \<^verbatim>\<open>buf\<close> of \<^verbatim>\<open>Text\<close> (lines 152-171). The map handed
  to \<^verbatim>\<open>json.Marshal\<close> holds strings and an \<^verbatim>\<open>int\<close> only, which always encode.
\<close>

definition text_request :: "TextInfo \<Rightarrow> wecom \<Rightarrow> request" where
  "text_request t w =
     \<lparr>url = ''https://qyapi.weixin.qq.com/cgi-bin/message/send?access_token='' @ accessToken w,
      query = [],
      headers = [(''content-type'', ''application/json''), (''accept'', ''application/json'')],
      payload = JsonBody (JObj (map_lit
        [(''touser'', JStr (Touser t)),
         (''msgtype'', JStr ''text''),
         (''agentid'', JInt (AgentID t)),
         (''text'', JObj (map_lit [(''content'', JStr (Content t))])),
         (''safe'', JStr ''0'')]))\<rparr>"

text \<open>\<^verbatim>\<open>Text\<close> (lines 150-188): the response body is dropped.\<close>

definition Text :: "TextInfo \<Rightarrow> wecom \<Rightarrow> net \<Rightarrow> error option \<times> wecom \<times> net \<times> event list" where
  "Text t w n =
     (case send (text_request t) w n of
        (Inl e, w', n', ev) \<Rightarrow> (Some e, w', n', ev)
      | (Inr b, w', n', ev) \<Rightarrow> (None, w', n', ev))"

subsection \<open>Media upload and file messages\<close>

text \<open>\<^verbatim>\<open>type Filetype string\<close> and its four constants (lines 190-197).\<close>

type_synonym Filetype = string

definition IMAGE :: Filetype where "IMAGE = ''image''"
definition VOICE :: Filetype where "VOICE = ''voice''"
definition VIDEO :: Filetype where "VIDEO = ''video''"
definition FILE :: Filetype where "FILE = ''file''"

text \<open>The request of the closure \<^verbatim>\<open>buf\<close> of \<^verbatim>\<open>getMediaID\<close> (lines 201-219).\<close>

definition upload_request :: "string \<Rightarrow> Filetype \<Rightarrow> string \<Rightarrow> wecom \<Rightarrow> request" where
  "upload_request content filetype filename w =
     \<lparr>url = ''https://qyapi.weixin.qq.com/cgi-bin/media/upload?access_token='' @ accessToken w
             @ ''&type='' @ filetype,
      query = [],
      headers = [(''content-type'', ''multipart/form-data''), (''accept'', ''application/json'')],
      payload = FormFile ''media'' filename content\<rparr>"

text \<open>
  A Go function either returns or panics. The only panic of this file is the
  unchecked type assertion \<^verbatim>\<open>m["media_id"].(string)\<close> of line 243.
\<close>

datatype panic = InterfaceConversion

datatype 'a outcome = Returns 'a | Panics panic

text \<open>\<^verbatim>\<open>getMediaID\<close> (lines 199-244).\<close>

definition getMediaID ::
  "string \<Rightarrow> Filetype \<Rightarrow> string \<Rightarrow> wecom \<Rightarrow> net \<Rightarrow> (error + string) outcome \<times> wecom \<times> net \<times> event list" where
  "getMediaID content filetype filename w n =
     (case send (upload_request content filetype filename) w n of
        (Inl e, w', n', ev) \<Rightarrow> (Returns (Inl e), w', n', ev)
      | (Inr b, w', n', ev) \<Rightarrow>
          (case unmarshal_map b of
             Inl e \<Rightarrow> (Returns (Inl e), w', n', ev)
           | Inr m \<Rightarrow>
               (case map_index m ''media_id'' of
                  Some (JStr s) \<Rightarrow> (Returns (Inr s), w', n', ev)
                | _ \<Rightarrow> (Panics InterfaceConversion, w', n', ev))))"

text \<open>\<^verbatim>\<open>type FileInfo struct\<close> (lines 246-257).\<close>

record FileInfo =
  Touser :: string
  AgentID :: int
  Content :: string
  Filetype :: Filetype
  Filename :: string
  Title :: string
  Description :: string

text \<open>The request of the closure \<^verbatim>\<open>buf\<close> of \<^verbatim>\<open>File\<close> (lines 266-287).\<close>

definition file_request :: "FileInfo \<Rightarrow> string \<Rightarrow> wecom \<Rightarrow> request" where
  "file_request f m w =
     \<lparr>url = ''https://qyapi.weixin.qq.com/cgi-bin/message/send?access_token='' @ accessToken w,
      query = [],
      headers = [(''content-type'', ''application/json''), (''accept'', ''application/json'')],
      payload = JsonBody (JObj (map_lit
        [(''touser'', JStr (FileInfo.Touser f)),
         (''msgtype'', JStr (Filetype f)),
         (''agentid'', JInt (FileInfo.AgentID f)),
         (Filetype f, JObj (map_lit
            [(''media_id'', JStr m),
             (''title'', JStr (Title f)),
             (''description'', JStr (Description f))])),
         (''safe'', JInt 0)]))\<rparr>"

text \<open>\<^verbatim>\<open>File\<close> (lines 259-306); a panic of \<^verbatim>\<open>getMediaID\<close> unwinds through it.\<close>

definition File :: "FileInfo \<Rightarrow> wecom \<Rightarrow> net \<Rightarrow> error option outcome \<times> wecom \<times> net \<times> event list" where
  "File f w n =
     (case getMediaID (FileInfo.Content f) (Filetype f) (Filename f) w n of
        (Panics p, w', n', ev) \<Rightarrow> (Panics p, w', n', ev)
      | (Returns (Inl e), w', n', ev) \<Rightarrow> (Returns (Some e), w', n', ev)
      | (Returns (Inr m), w', n', ev) \<Rightarrow>
          (case send (file_request f m) w' n' of
             (Inl e, w'', n'', ev') \<Rightarrow> (Returns (Some e), w'', n'', ev @ ev')
           | (Inr b, w'', n'', ev') \<Rightarrow> (Returns None, w'', n'', ev @ ev')))"

subsection \<open>Sequences of sends on one sender\<close>

datatype op = SendText TextInfo | SendFile FileInfo

text \<open>
  A caller issues the operations one after the other on the same sender and goes
  on after an error (and after a panic it has recovered from).
\<close>

fun run :: "op list \<Rightarrow> wecom \<Rightarrow> net \<Rightarrow> wecom \<times> net \<times> event list" where
  "run [] w n = (w, n, [])"
| "run (SendText t # ops) w n =
     (case Text t w n of
        (r, w', n', ev) \<Rightarrow> (case run ops w' n' of (w'', n'', ev') \<Rightarrow> (w'', n'', ev @ ev')))"
| "run (SendFile f # ops) w n =
     (case File f w n of
        (r, w', n', ev) \<Rightarrow> (case run ops w' n' of (w'', n'', ev') \<Rightarrow> (w'', n'', ev @ ev')))"

subsection \<open>Reading a trace of events\<close>

definition cred_error_reply :: "reply \<Rightarrow> bool" where
  "cred_error_reply out =
     (case out of
        Inl e \<Rightarrow> False
      | Inr b \<Rightarrow> (case unmarshal_status b of Inl e \<Rightarrow> False | Inr r \<Rightarrow> credential_error (ErrCode r)))"

text \<open>The requests sent to the message and upload endpoints, and to the token endpoint.\<close>

fun api_calls :: "event list \<Rightarrow> request list" where
  "api_calls [] = []"
| "api_calls (ApiCall rq out # es) = rq # api_calls es"
| "api_calls (e # es) = api_calls es"

fun token_calls :: "event list \<Rightarrow> request list" where
  "token_calls [] = []"
| "token_calls (TokenCall rq out # es) = rq # token_calls es"
| "token_calls (e # es) = token_calls es"





text \<open>
  \<open>guarded held es\<close>: every access to the flag in \<open>es\<close> happens between a
  \<open>PushLock\<close> and the next \<open>PushUnlock\<close> (\<open>held\<close> says whether the lock is held
  at the start).
\<close>

fun guarded :: "bool \<Rightarrow> event list \<Rightarrow> bool" where
  "guarded held [] = True"
| "guarded held (PushLock # es) = guarded True es"
| "guarded held (PushUnlock # es) = guarded False es"
| "guarded held (FlagRead b # es) = (held \<and> guarded held es)"
| "guarded held (FlagWrite b # es) = (held \<and> guarded held es)"
| "guarded held (e # es) = guarded held es"

text \<open>
  What a successful reply of the token endpoint stores: \<open>Some t\<close> when
  \<^verbatim>\<open>getAccessToken\<close> would overwrite the credential with \<open>t\<close>.
\<close>

definition fetched :: "reply \<Rightarrow> string option" where
  "fetched out =
     (case out of
        Inl e \<Rightarrow> None
      | Inr b \<Rightarrow>
          (case unmarshal_accessResp b of
             Inl e \<Rightarrow> None
           | Inr a \<Rightarrow> if Errcode a = 0 then Some (AccessToken a) else None))"

text \<open>
  A monitor for the token endpoint. It follows whether a credential is held
  (\<open>have\<close>) and whether the latest response was a credential error (\<open>pend\<close>),
  and accepts a contact of the token endpoint only when no credential is held or
  a credential error has just been observed. \<open>None\<close> is a violation.
\<close>

fun audit :: "bool \<times> bool \<Rightarrow> event list \<Rightarrow> (bool \<times> bool) option" where
  "audit s [] = Some s"
| "audit (have, pend) (TokenCall rq out # es) =
     (if have \<and> \<not> pend then None
      else audit (case fetched out of None \<Rightarrow> have | Some t \<Rightarrow> t \<noteq> [], False) es)"
| "audit (have, pend) (ApiCall rq out # es) = audit (have, cred_error_reply out) es"
| "audit s (e # es) = audit s es"

text \<open>The events up to the first response that carried a credential-error code.\<close>

fun until_cred_error :: "event list \<Rightarrow> event list" where
  "until_cred_error [] = []"
| "until_cred_error (ApiCall rq out # es) =
     (if cred_error_reply out then [] else ApiCall rq out # until_cred_error es)"
| "until_cred_error (e # es) = e # until_cred_error es"

text \<open>The non-empty credentials that contacts of the token endpoint stored.\<close>

fun stored_fetches :: "event list \<Rightarrow> string list" where
  "stored_fetches [] = []"
| "stored_fetches (TokenCall rq out # es) =
     (case fetched out of
        None \<Rightarrow> stored_fetches es
      | Some t \<Rightarrow> if t = [] then stored_fetches es else t # stored_fetches es)"
| "stored_fetches (e # es) = stored_fetches es"

text \<open>The events before the first request to the message or upload endpoint.\<close>

fun before_first_api :: "event list \<Rightarrow> event list" where
  "before_first_api [] = []"
| "before_first_api (ApiCall rq out # es) = []"
| "before_first_api (e # es) = e # before_first_api es"

text \<open>Lock operations and accesses to the flag.\<close>

fun is_sync :: "event \<Rightarrow> bool" where
  "is_sync (Println d) = False"
| "is_sync (TokenCall rq out) = False"
| "is_sync (ApiCall rq out) = False"
| "is_sync e = True"






subsection \<open>Sample senders, replies and messages\<close>

definition reply_status :: "int \<Rightarrow> string \<Rightarrow> body" where
  "reply_status c m = Json (JObj [(''errcode'', JInt c), (''errmsg'', JStr m)])"

definition reply_token :: "string \<Rightarrow> body" where
  "reply_token t =
     Json (JObj [(''errcode'', JInt 0), (''errmsg'', JStr ''ok''),
                 (''access_token'', JStr t), (''expires_in'', JInt 7200)])"

definition reply_media :: "string \<Rightarrow> body" where
  "reply_media m =
     Json (JObj [(''errcode'', JInt 0), (''errmsg'', JStr ''ok''),
                 (''type'', JStr ''file''), (''media_id'', JStr m)])"

definition reply_media_overflow :: body where
  "reply_media_overflow =
     Json (JObj [(''errcode'', JInt 0), (''errmsg'', JStr ''ok''),
                 (''media_id'', JStr ''M1''), (''created_at'', JReal 1 999)])"

definition network :: "reply list \<Rightarrow> reply list \<Rightarrow> net" where
  "network ts rs = \<lparr>token_replies = ts, api_replies = rs\<rparr>"

definition fresh :: wecom where
  "fresh = New ''ww1'' ''s3cret''"

definition holding :: "string \<Rightarrow> wecom" where
  "holding t = fresh\<lparr>accessToken := t\<rparr>"

definition hello :: TextInfo where
  "hello = \<lparr>TextInfo.Touser = ''Pony'', AgentID = 1000002, Content = ''test''\<rparr>"

definition report :: FileInfo where
  "report =
     \<lparr>FileInfo.Touser = ''Pony'', AgentID = 1000002, Content = ''data'', Filetype = FILE,
      Filename = ''test.txt'', Title = [], Description = []\<rparr>"

section \<open>Properties\<close>

subsection \<open>Fetching the credential\<close>

lemma getAccessToken_api_replies:
  "getAccessToken w n = (r, w', n', ev) \<Longrightarrow> api_replies n' = api_replies n"
  by (auto simp: getAccessToken_def Let_def split: prod.splits sum.splits if_splits)

lemma ensure_api_replies:
  "ensure w n = (r, w', n', ev) \<Longrightarrow> api_replies n' = api_replies n"
  by (auto simp: ensure_def split: prod.splits if_splits dest: getAccessToken_api_replies)

lemma getAccessToken_events:
  "getAccessToken w n = (r, w', n', ev) \<Longrightarrow>
   ev = [TokenCall (token_request w) (fst (next_reply (token_replies n)))]"
  by (auto simp: getAccessToken_def Let_def split: prod.splits sum.splits if_splits)

lemma getAccessToken_flag:
  "getAccessToken w n = (r, w', n', ev) \<Longrightarrow> isFirstAccessTokenErr w' = isFirstAccessTokenErr w"
  by (auto simp: getAccessToken_def Let_def split: prod.splits sum.splits if_splits)

lemma ensure_flag:
  "ensure w n = (r, w', n', ev) \<Longrightarrow> isFirstAccessTokenErr w' = isFirstAccessTokenErr w"
  by (auto simp: ensure_def split: prod.splits if_splits dest: getAccessToken_flag)

lemma ensure_present:
  "accessToken w \<noteq> [] \<Longrightarrow> ensure w n = (None, w, n, [InitLock, InitUnlock])"
  by (simp add: ensure_def)

lemma ensure_events:
  "ensure w n = (r, w', n', ev) \<Longrightarrow>
   ev = [InitLock, InitUnlock] \<or>
   (\<exists>out. ev = [InitLock, TokenCall (token_request w) out, InitUnlock])"
  by (auto simp: ensure_def split: prod.splits if_splits dest: getAccessToken_events)

text \<open>
  C10. A fetch that fails, for whatever reason, returns the sender as it was; the
  credential is overwritten only by a fetch that returns no error, and then the
  token endpoint answered with a body that decodes with \<open>errcode\<close> 0, whose
  \<open>access_token\<close> is what is stored.
\<close>

theorem getAccessToken_failure_keeps_credential:
  assumes "getAccessToken w n = (r, w', n', ev)"
  shows "(r \<noteq> None \<longrightarrow> w' = w) \<and>
         (r = None \<longrightarrow>
            (\<exists>b a rest. token_replies n = Inr b # rest \<and> unmarshal_accessResp b = Inr a \<and>
               Errcode a = 0 \<and> w' = w\<lparr>accessToken := AccessToken a\<rparr>))"
  using assms
  by (auto simp: getAccessToken_def Let_def next_reply_def
      split: prod.splits sum.splits if_splits list.splits)

subsection \<open>Dispatch: accepted and rejected requests\<close>

lemma send_unfold_Done:
  "attempt g w n = (Done r, w', n', ev) \<Longrightarrow> send g w n = (r, w', n', ev)"
  by (simp add: send.simps [of g w n])

lemma send_unfold_Retry:
  "attempt g w n = (Retry, w', n', ev) \<Longrightarrow> send g w' n' = (r, w'', n'', ev') \<Longrightarrow>
   send g w n = (r, w'', n'', ev @ ev')"
  by (simp add: send.simps [of g w n])

lemma send_errcode_zero:
  assumes "ensure w n = (None, w1, n1, ev1)"
    and "api_replies n = Inr resp # rest"
    and "unmarshal_status resp = Inr r"
    and "ErrCode r = 0"
  shows "send g w n =
           (Inr resp, w1, n1\<lparr>api_replies := rest\<rparr>,
            ev1 @ [ApiCall (g w1) (Inr resp), PushLock, PushUnlock])"
proof -
  have "api_replies n1 = Inr resp # rest"
    using assms(1,2) by (simp add: ensure_api_replies)
  then have "attempt g w n =
      (Done (Inr resp), w1, n1\<lparr>api_replies := rest\<rparr>,
       ev1 @ [ApiCall (g w1) (Inr resp), PushLock, PushUnlock])"
    using assms by (simp add: attempt_def call_api_def next_reply_def)
  then show ?thesis by (rule send_unfold_Done)
qed

text \<open>
  C7. When the response to the dispatched request decodes with \<open>errcode\<close> 0,
  \<open>send\<close> returns that very body. After the response only the push lock is
  taken and released: there is no contact of the token endpoint and no further
  request, and the sender is the one the request was built from (\<open>w1\<close>, which is
  \<open>w\<close> itself when a credential was already held), flag included.
\<close>

theorem send_accepted:
  assumes "ensure w n = (None, w1, n1, ev1)"
    and "api_replies n = Inr resp # rest"
    and "unmarshal_status resp = Inr r"
    and "ErrCode r = 0"
  shows "send g w n =
           (Inr resp, w1, n1\<lparr>api_replies := rest\<rparr>,
            ev1 @ [ApiCall (g w1) (Inr resp), PushLock, PushUnlock]) \<and>
         isFirstAccessTokenErr w1 = isFirstAccessTokenErr w \<and>
         (accessToken w \<noteq> [] \<longrightarrow> w1 = w \<and> n1 = n \<and> ev1 = [InitLock, InitUnlock])"
  using send_errcode_zero [OF assms] ensure_flag [OF assms(1)] assms(1)
  by (auto simp: ensure_present)

text \<open>
  C2, as amended. When the response decodes with an \<open>errcode\<close> that is neither 0
  nor one of 42001, 40014, 41001, \<open>send\<close> returns \<^verbatim>\<open>errors.New(r.ErrMsg)\<close>: an
  error that holds the provider's message and nothing else. After the response
  only the push lock is taken and released: no retry, no refresh.
\<close>

theorem send_provider_error:
  assumes "ensure w n = (None, w1, n1, ev1)"
    and "api_replies n = Inr resp # rest"
    and "unmarshal_status resp = Inr r"
    and "ErrCode r \<noteq> 0"
    and "\<not> credential_error (ErrCode r)"
  shows "send g w n =
           (Inl (ErrorString (ErrMsg r)), w1, n1\<lparr>api_replies := rest\<rparr>,
            ev1 @ [ApiCall (g w1) (Inr resp), PushLock, PushUnlock])"
proof -
  have "api_replies n1 = Inr resp # rest"
    using assms(1,2) by (simp add: ensure_api_replies)
  then have "attempt g w n =
      (Done (Inl (ErrorString (ErrMsg r))), w1, n1\<lparr>api_replies := rest\<rparr>,
       ev1 @ [ApiCall (g w1) (Inr resp), PushLock, PushUnlock])"
    using assms by (simp add: attempt_def call_api_def next_reply_def credential_error_def)
  then show ?thesis by (rule send_unfold_Done)
qed

subsection \<open>Recovery from a credential error\<close>

lemma send_starts_with_call:
  assumes "accessToken w \<noteq> []"
  shows "\<exists>res w' n' tail.
           send g w n =
             (res, w', n',
              [InitLock, InitUnlock, ApiCall (g w) (fst (next_reply (api_replies n)))] @ tail)"
proof -
  obtain st w1 n1 ev where a: "attempt g w n = (st, w1, n1, ev)"
    by (cases "attempt g w n") auto
  have "\<exists>tail. ev = [InitLock, InitUnlock, ApiCall (g w) (fst (next_reply (api_replies n)))] @ tail"
    using a assms
    by (auto simp: attempt_def ensure_present call_api_def
        split: prod.splits sum.splits if_splits option.splits)
  then obtain tail where ev: "ev = [InitLock, InitUnlock, ApiCall (g w) (fst (next_reply (api_replies n)))] @ tail"
    by blast
  show ?thesis
  proof (cases st)
    case (Done r)
    with a ev show ?thesis by (auto dest: send_unfold_Done)
  next
    case Retry
    obtain r2 w2 n2 ev2 where s: "send g w1 n1 = (r2, w2, n2, ev2)"
      by (cases "send g w1 n1") auto
    from a Retry have "attempt g w n = (Retry, w1, n1, ev)" by simp
    from send_unfold_Retry [OF this s] ev show ?thesis by simp
  qed
qed

text \<open>
  C3, as amended. Let the first response carry 42001, 40014 or 41001 while the flag
  is set, and let the refresh succeed with a non-empty credential. Then between
  that response and the resubmission the token endpoint is contacted exactly
  once, under the push lock; the same \<open>getResp\<close> is dispatched again without a
  further fetch (the init lock is taken and released at once), and its request is
  built from the sender that holds the credential just fetched. For \<^verbatim>\<open>Text\<close> that
  credential ends the URL of the resubmitted request.
\<close>

theorem send_refreshes_and_resubmits:
  assumes "ensure w n = (None, w1, n1, ev1)"
    and "api_replies n = Inr resp # rest"
    and "unmarshal_status resp = Inr r"
    and "credential_error (ErrCode r)"
    and "isFirstAccessTokenErr w"
    and "token_replies n1 = Inr tb # trest"
    and "unmarshal_accessResp tb = Inr a"
    and "Errcode a = 0"
    and "AccessToken a \<noteq> []"
  shows "\<exists>res w' n' out tail.
           send g w n =
             (res, w', n',
              ev1 @ [ApiCall (g w1) (Inr resp), PushLock, FlagRead True] @ classify (ErrCode r)
                @ [FlagWrite False, TokenCall (token_request w1) (Inr tb), PushUnlock,
                   InitLock, InitUnlock,
                   ApiCall (g (w1\<lparr>isFirstAccessTokenErr := False, accessToken := AccessToken a\<rparr>)) out]
                @ tail) \<and>
           url (text_request t (w1\<lparr>isFirstAccessTokenErr := False, accessToken := AccessToken a\<rparr>)) =
             ''https://qyapi.weixin.qq.com/cgi-bin/message/send?access_token='' @ AccessToken a"
proof -
  let ?w3 = "w1\<lparr>isFirstAccessTokenErr := False, accessToken := AccessToken a\<rparr>"
  let ?n3 = "n1\<lparr>api_replies := rest, token_replies := trest\<rparr>"
  let ?ev = "ev1 @ [ApiCall (g w1) (Inr resp), PushLock, FlagRead True] @ classify (ErrCode r)
                @ [FlagWrite False, TokenCall (token_request w1) (Inr tb), PushUnlock]"
  have ar: "api_replies n1 = Inr resp # rest"
    using assms(1,2) by (simp add: ensure_api_replies)
  have fl: "isFirstAccessTokenErr w1"
    using assms(1,5) by (simp add: ensure_flag)
  have ga: "getAccessToken (w1\<lparr>isFirstAccessTokenErr := False\<rparr>) (n1\<lparr>api_replies := rest\<rparr>) =
      (None, ?w3, ?n3, [TokenCall (token_request w1) (Inr tb)])"
    using assms(6-8) by (simp add: getAccessToken_def next_reply_def token_request_def)
  have a: "attempt g w n = (Retry, ?w3, ?n3, ?ev)"
    using assms(1,3,4) ar fl ga
    by (auto simp: attempt_def call_api_def next_reply_def credential_error_def)
  have "accessToken ?w3 \<noteq> []" using assms(9) by simp
  from send_starts_with_call [OF this, of g ?n3]
  obtain res w' n' tail where
    s: "send g ?w3 ?n3 = (res, w', n', [InitLock, InitUnlock, ApiCall (g ?w3) (fst (next_reply (api_replies ?n3)))] @ tail)"
    by blast
  from send_unfold_Retry [OF a s] show ?thesis
    by (auto simp: text_request_def)
qed

subsection \<open>Alternation of refresh and plain retry\<close>

lemma classify_cases:
  "credential_error c \<Longrightarrow> \<exists>d. classify c = [Println d]"
  by (auto simp: classify_def credential_error_def)



















subsection \<open>When the token endpoint is contacted\<close>

lemma audit_append:
  "audit s (xs @ ys) = (case audit s xs of None \<Rightarrow> None | Some s' \<Rightarrow> audit s' ys)"
  by (induction s xs rule: audit.induct) auto

lemma getAccessToken_audit:
  assumes "getAccessToken w n = (r, w', n', ev)"
    and "accessToken w = [] \<or> p"
  shows "audit (accessToken w \<noteq> [], p) ev = Some (accessToken w' \<noteq> [], False)"
  using assms
  by (auto simp: getAccessToken_def Let_def fetched_def
      split: prod.splits sum.splits if_splits)

lemma ensure_audit:
  assumes "ensure w n = (r, w', n', ev)"
  shows "audit (accessToken w \<noteq> [], p) ev =
           Some (accessToken w' \<noteq> [], if accessToken w = [] then False else p)"
proof (cases "accessToken w = []")
  case True
  then obtain ev0 where g: "getAccessToken w n = (r, w', n', ev0)" and ev: "ev = [InitLock] @ ev0 @ [InitUnlock]"
    using assms by (auto simp: ensure_def split: prod.splits)
  from getAccessToken_audit [OF g, of p] True ev show ?thesis
    by (simp add: audit_append)
next
  case False
  with assms show ?thesis by (auto simp: ensure_def)
qed

lemma attempt_audit:
  assumes "attempt g w n = (st, w', n', ev)"
  shows "\<exists>p'. audit (accessToken w \<noteq> [], p) ev = Some (accessToken w' \<noteq> [], p')"
proof -
  obtain r1 w1 n1 ev1 where e: "ensure w n = (r1, w1, n1, ev1)"
    by (cases "ensure w n") auto
  note ea = ensure_audit [OF e, of p]
  show ?thesis
  proof (cases r1)
    case (Some err)
    with assms e ea show ?thesis by (auto simp: attempt_def)
  next
    case None
    obtain out n2 ev2 where c: "call_api g w1 n1 = (out, n2, ev2)"
      by (cases "call_api g w1 n1") auto
    then have ev2: "ev2 = [ApiCall (g w1) out]"
      by (auto simp: call_api_def split: prod.splits)
    obtain r3 w3 n3 ev3 where g3: "getAccessToken (w1\<lparr>isFirstAccessTokenErr := False\<rparr>) n2 = (r3, w3, n3, ev3)"
      by (cases "getAccessToken (w1\<lparr>isFirstAccessTokenErr := False\<rparr>) n2") auto
    have ga: "audit (accessToken w1 \<noteq> [], True) ev3 = Some (accessToken w3 \<noteq> [], False)"
      using getAccessToken_audit [OF g3, of True] by simp
    show ?thesis
      using assms e None c ev2 g3 ga ea
      by (auto simp: attempt_def audit_append cred_error_reply_def credential_error_def classify_def
          split: sum.splits if_splits option.splits)
  qed
qed

lemma send_audit:
  "send g w n = (r, w', n', ev) \<Longrightarrow>
   \<exists>p'. audit (accessToken w \<noteq> [], p) ev = Some (accessToken w' \<noteq> [], p')"
proof (induction g w n arbitrary: r w' n' ev p rule: send.induct)
  case (1 g w n)
  obtain st w1 n1 ev1 where a: "attempt g w n = (st, w1, n1, ev1)"
    by (cases "attempt g w n") auto
  from attempt_audit [OF a, of p] obtain p1 where
    p1: "audit (accessToken w \<noteq> [], p) ev1 = Some (accessToken w1 \<noteq> [], p1)" by blast
  show ?case
  proof (cases st)
    case (Done r0)
    with a "1.prems" p1 show ?thesis
      by (auto dest: send_unfold_Done)
  next
    case Retry
    obtain r2 w2 n2 ev2 where s: "send g w1 n1 = (r2, w2, n2, ev2)"
      by (cases "send g w1 n1") auto
    from a Retry have a': "attempt g w n = (Retry, w1, n1, ev1)" by simp
    from "1.IH" [OF a' [symmetric] refl refl refl s, of p1] obtain p2 where
      p2: "audit (accessToken w1 \<noteq> [], p1) ev2 = Some (accessToken w2 \<noteq> [], p2)" by blast
    from send_unfold_Retry [OF a' s] "1.prems" have "ev = ev1 @ ev2" "w' = w2" by simp_all
    with p1 p2 show ?thesis by (simp add: audit_append)
  qed
qed

lemma Text_audit:
  "Text t w n = (r, w', n', ev) \<Longrightarrow>
   \<exists>p'. audit (accessToken w \<noteq> [], p) ev = Some (accessToken w' \<noteq> [], p')"
  by (auto simp: Text_def split: prod.splits sum.splits dest: send_audit)

lemma getMediaID_audit:
  "getMediaID c ft fn w n = (r, w', n', ev) \<Longrightarrow>
   \<exists>p'. audit (accessToken w \<noteq> [], p) ev = Some (accessToken w' \<noteq> [], p')"
  by (auto simp: getMediaID_def split: prod.splits sum.splits option.splits json.splits
      dest: send_audit)

lemma File_audit:
  assumes "File f w n = (r, w', n', ev)"
  shows "\<exists>p'. audit (accessToken w \<noteq> [], p) ev = Some (accessToken w' \<noteq> [], p')"
proof -
  obtain r1 w1 n1 ev1 where m: "getMediaID (FileInfo.Content f) (Filetype f) (Filename f) w n = (r1, w1, n1, ev1)"
    by (cases "getMediaID (FileInfo.Content f) (Filetype f) (Filename f) w n") auto
  from getMediaID_audit [OF m, of p] obtain p1 where
    p1: "audit (accessToken w \<noteq> [], p) ev1 = Some (accessToken w1 \<noteq> [], p1)" by blast
  show ?thesis
  proof (cases r1)
    case (Panics x)
    with assms m p1 show ?thesis by (auto simp: File_def)
  next
    case (Returns x)
    show ?thesis
    proof (cases x)
      case (Inl e)
      with Returns assms m p1 show ?thesis by (auto simp: File_def)
    next
      case (Inr mid)
      obtain r2 w2 n2 ev2 where s: "send (file_request f mid) w1 n1 = (r2, w2, n2, ev2)"
        by (cases "send (file_request f mid) w1 n1") auto
      from send_audit [OF s, of p1] obtain p2 where
        p2: "audit (accessToken w1 \<noteq> [], p1) ev2 = Some (accessToken w2 \<noteq> [], p2)" by blast
      from Inr Returns assms m s have "ev = ev1 @ ev2" "w' = w2"
        by (auto simp: File_def split: sum.splits)
      with p1 p2 show ?thesis by (simp add: audit_append)
    qed
  qed
qed

lemma run_audit:
  "run ops w n = (w', n', ev) \<Longrightarrow>
   \<exists>p'. audit (accessToken w \<noteq> [], p) ev = Some (accessToken w' \<noteq> [], p')"
proof (induction ops arbitrary: w n w' n' ev p)
  case Nil
  then show ?case by simp
next
  case (Cons x ops)
  show ?case
  proof (cases x)
    case (SendText t)
    obtain r1 w1 n1 ev1 where t: "Text t w n = (r1, w1, n1, ev1)"
      by (cases "Text t w n") auto
    obtain w2 n2 ev2 where r: "run ops w1 n1 = (w2, n2, ev2)"
      by (cases "run ops w1 n1") auto
    from Text_audit [OF t, of p] obtain p1 where
      p1: "audit (accessToken w \<noteq> [], p) ev1 = Some (accessToken w1 \<noteq> [], p1)" by blast
    from Cons.IH [OF r, of p1] obtain p2 where
      p2: "audit (accessToken w1 \<noteq> [], p1) ev2 = Some (accessToken w2 \<noteq> [], p2)" by blast
    from Cons.prems SendText t r have "ev = ev1 @ ev2" "w' = w2" by simp_all
    with p1 p2 show ?thesis by (simp add: audit_append)
  next
    case (SendFile f)
    obtain r1 w1 n1 ev1 where t: "File f w n = (r1, w1, n1, ev1)"
      by (cases "File f w n") auto
    obtain w2 n2 ev2 where r: "run ops w1 n1 = (w2, n2, ev2)"
      by (cases "run ops w1 n1") auto
    from File_audit [OF t, of p] obtain p1 where
      p1: "audit (accessToken w \<noteq> [], p) ev1 = Some (accessToken w1 \<noteq> [], p1)" by blast
    from Cons.IH [OF r, of p1] obtain p2 where
      p2: "audit (accessToken w1 \<noteq> [], p1) ev2 = Some (accessToken w2 \<noteq> [], p2)" by blast
    from Cons.prems SendFile t r have "ev = ev1 @ ev2" "w' = w2" by simp_all
    with p1 p2 show ?thesis by (simp add: audit_append)
  qed
qed

lemma audit_stored_fetches:
  "audit (have, False) es = Some s \<Longrightarrow>
   length (stored_fetches (until_cred_error es)) \<le> (if have then 0 else 1)"
proof (induction es arbitrary: "have" s)
  case Nil
  then show ?case by simp
next
  case (Cons e es)
  show ?case
  proof (cases e)
    case (TokenCall rq out)
    with Cons.prems have nh: "\<not> have" by (auto split: if_splits)
    show ?thesis
    proof (cases "fetched out")
      case None
      with TokenCall Cons.prems nh Cons.IH [of False s] show ?thesis by simp
    next
      case (Some t)
      with TokenCall Cons.prems nh Cons.IH [of "t \<noteq> []" s] show ?thesis
        by (auto split: if_splits)
    qed
  next
    case (ApiCall rq out)
    with Cons.prems Cons.IH [of "have" s] show ?thesis by (auto split: if_splits)
  qed (use Cons.prems Cons.IH [of "have" s] in auto)
qed

text \<open>
  C6, as amended. In every sequence of sends on a new sender, the token endpoint
  is contacted only while no credential is held or directly after a response
  that carried a credential-error code (the monitor \<open>audit\<close> accepts the whole
  trace), and at most one contact that stores a credential happens before the
  first such response.
\<close>

theorem fetch_only_when_absent_or_rejected:
  "audit (False, False) (snd (snd (run ops (New cid cs) n))) \<noteq> None \<and>
   length (stored_fetches (until_cred_error (snd (snd (run ops (New cid cs) n))))) \<le> 1"
proof -
  obtain w' n' ev where r: "run ops (New cid cs) n = (w', n', ev)"
    by (cases "run ops (New cid cs) n") auto
  from run_audit [OF r, of False] obtain p' where
    a: "audit (False, False) ev = Some (accessToken w' \<noteq> [], p')"
    by (auto simp: New_def)
  from audit_stored_fetches [OF a] a r show ?thesis by simp
qed

subsection \<open>File messages\<close>

lemma ensure_api_calls:
  "ensure w n = (r, w', n', ev) \<Longrightarrow> api_calls (ev @ es) = api_calls es"
  by (auto dest!: ensure_events)

lemma file_request_expanded:
  assumes "Filetype f \<in> {IMAGE, VOICE, VIDEO, FILE}"
  shows "file_request f mid w =
           \<lparr>url = ''https://qyapi.weixin.qq.com/cgi-bin/message/send?access_token='' @ accessToken w,
            query = [],
            headers = [(''content-type'', ''application/json''), (''accept'', ''application/json'')],
            payload = JsonBody (JObj
              [(''touser'', JStr (FileInfo.Touser f)),
               (''msgtype'', JStr (Filetype f)),
               (''agentid'', JInt (FileInfo.AgentID f)),
               (Filetype f, JObj [(''media_id'', JStr mid), (''title'', JStr (Title f)),
                                  (''description'', JStr (Description f))]),
               (''safe'', JInt 0)])\<rparr>"
  using assms
  by (auto simp: file_request_def map_lit_def IMAGE_def VOICE_def VIDEO_def FILE_def)

text \<open>
  C8, as amended. On the happy path of a file send with one of the four media
  classifications (both dispatches find or fetch a credential, both responses
  decode with \<open>errcode\<close> 0, the upload response decodes into a map, which
  needs every number in it to fit a \<^verbatim>\<open>float64\<close>, and holds a string
  \<open>media_id\<close>), \<^verbatim>\<open>File\<close> returns no error and issues exactly two requests to
  the provider's upload and message endpoints. The first is the multipart upload
  of the content under the file name, to the upload URL with the credential and
  the classification. The second is the JSON message to the send URL with the
  credential; it maps the key named after the classification to an object with
  the \<open>media_id\<close> the upload returned, next to \<open>title\<close> and \<open>description\<close>.
  When the sender already holds a credential the token endpoint is not contacted
  at all.
\<close>

theorem File_happy_path:
  assumes "Filetype f \<in> {IMAGE, VOICE, VIDEO, FILE}"
    and "ensure w n = (None, w1, n1, ev1)"
    and "api_replies n = Inr up # Inr sent # rest"
    and "unmarshal_status up = Inr r1" and "ErrCode r1 = 0"
    and "unmarshal_map up = Inr m" and "map_index m ''media_id'' = Some (JStr mid)"
    and "ensure w1 (n1\<lparr>api_replies := Inr sent # rest\<rparr>) = (None, w2, n2, ev2)"
    and "unmarshal_status sent = Inr r2" and "ErrCode r2 = 0"
  shows "\<exists>ev. File f w n = (Returns None, w2, n2\<lparr>api_replies := rest\<rparr>, ev) \<and>
           api_calls ev =
             [\<lparr>url = ''https://qyapi.weixin.qq.com/cgi-bin/media/upload?access_token=''
                      @ accessToken w1 @ ''&type='' @ Filetype f,
               query = [],
               headers = [(''content-type'', ''multipart/form-data''),
                          (''accept'', ''application/json'')],
               payload = FormFile ''media'' (Filename f) (FileInfo.Content f)\<rparr>,
              \<lparr>url = ''https://qyapi.weixin.qq.com/cgi-bin/message/send?access_token=''
                      @ accessToken w2,
               query = [],
               headers = [(''content-type'', ''application/json''),
                          (''accept'', ''application/json'')],
               payload = JsonBody (JObj
                 [(''touser'', JStr (FileInfo.Touser f)),
                  (''msgtype'', JStr (Filetype f)),
                  (''agentid'', JInt (FileInfo.AgentID f)),
                  (Filetype f, JObj [(''media_id'', JStr mid), (''title'', JStr (Title f)),
                                     (''description'', JStr (Description f))]),
                  (''safe'', JInt 0)])\<rparr>] \<and>
           (accessToken w \<noteq> [] \<longrightarrow> token_calls ev = [])"
proof -
  let ?up = "upload_request (FileInfo.Content f) (Filetype f) (Filename f)"
  let ?n1 = "n1\<lparr>api_replies := Inr sent # rest\<rparr>"
  let ?ev = "(ev1 @ [ApiCall (?up w1) (Inr up), PushLock, PushUnlock]) @
        ev2 @ [ApiCall (file_request f mid w2) (Inr sent), PushLock, PushUnlock]"
  have s1: "send ?up w n = (Inr up, w1, ?n1, ev1 @ [ApiCall (?up w1) (Inr up), PushLock, PushUnlock])"
    using send_errcode_zero [OF assms(2,3,4,5)] .
  have g: "getMediaID (FileInfo.Content f) (Filetype f) (Filename f) w n =
      (Returns (Inr mid), w1, ?n1, ev1 @ [ApiCall (?up w1) (Inr up), PushLock, PushUnlock])"
    using s1 assms(6,7) by (simp add: getMediaID_def)
  have "api_replies ?n1 = Inr sent # rest" by simp
  from send_errcode_zero [OF assms(8) this assms(9,10)]
  have s2: "send (file_request f mid) w1 ?n1 =
      (Inr sent, w2, n2\<lparr>api_replies := rest\<rparr>,
       ev2 @ [ApiCall (file_request f mid w2) (Inr sent), PushLock, PushUnlock])" .
  have F: "File f w n = (Returns None, w2, n2\<lparr>api_replies := rest\<rparr>, ?ev)"
    using g s2 by (simp add: File_def)
  have "api_calls ?ev = [?up w1, file_request f mid w2]"
    using ensure_api_calls [OF assms(2)] ensure_api_calls [OF assms(8)] by simp
  then have A: "api_calls ?ev =
      [\<lparr>url = ''https://qyapi.weixin.qq.com/cgi-bin/media/upload?access_token=''
               @ accessToken w1 @ ''&type='' @ Filetype f,
        query = [],
        headers = [(''content-type'', ''multipart/form-data''),
                   (''accept'', ''application/json'')],
        payload = FormFile ''media'' (Filename f) (FileInfo.Content f)\<rparr>,
       \<lparr>url = ''https://qyapi.weixin.qq.com/cgi-bin/message/send?access_token=''
               @ accessToken w2,
        query = [],
        headers = [(''content-type'', ''application/json''),
                   (''accept'', ''application/json'')],
        payload = JsonBody (JObj
          [(''touser'', JStr (FileInfo.Touser f)),
           (''msgtype'', JStr (Filetype f)),
           (''agentid'', JInt (FileInfo.AgentID f)),
           (Filetype f, JObj [(''media_id'', JStr mid), (''title'', JStr (Title f)),
                              (''description'', JStr (Description f))]),
           (''safe'', JInt 0)])\<rparr>]"
    by (simp only: file_request_expanded [OF assms(1)] upload_request_def)
  have T: "accessToken w \<noteq> [] \<longrightarrow> token_calls ?ev = []"
  proof
    assume h: "accessToken w \<noteq> []"
    with assms(2) have 1: "w1 = w" "ev1 = [InitLock, InitUnlock]"
      by (simp_all add: ensure_present)
    with h assms(8) have "ev2 = [InitLock, InitUnlock]"
      by (simp add: ensure_present)
    with 1 show "token_calls ?ev = []" by simp
  qed
  from F A T show ?thesis by blast
qed

section \<open>Worked executions\<close>

subsection \<open>Fetching, accepted and rejected requests\<close>

theorem getAccessToken_failure_keeps_credential_witness:
  "getAccessToken fresh (network [Inr (reply_status 40013 ''invalid corpid'')] []) =
     (Some (ErrorString ''invalid corpid''), fresh, network [] [],
      [TokenCall (token_request fresh) (Inr (reply_status 40013 ''invalid corpid''))]) \<and>
   getAccessToken fresh (network [Inr (reply_token ''T1'')] []) =
     (None, holding ''T1'', network [] [],
      [TokenCall (token_request fresh) (Inr (reply_token ''T1''))]) \<and>
   (\<exists>b a rest. token_replies (network [Inr (reply_token ''T1'')] []) = Inr b # rest \<and>
      unmarshal_accessResp b = Inr a \<and> Errcode a = 0 \<and>
      holding ''T1'' = fresh\<lparr>accessToken := AccessToken a\<rparr>)"
proof -
  have a: "getAccessToken fresh (network [Inr (reply_status 40013 ''invalid corpid'')] []) =
     (Some (ErrorString ''invalid corpid''), fresh, network [] [],
      [TokenCall (token_request fresh) (Inr (reply_status 40013 ''invalid corpid''))])"
    by code_simp
  have b: "getAccessToken fresh (network [Inr (reply_token ''T1'')] []) =
     (None, holding ''T1'', network [] [],
      [TokenCall (token_request fresh) (Inr (reply_token ''T1''))])"
    by code_simp
  from getAccessToken_failure_keeps_credential [OF b] a b show ?thesis by simp
qed

theorem send_accepted_witness:
  "send (text_request hello) (holding ''T0'') (network [] [Inr (reply_status 0 ''ok'')]) =
     (Inr (reply_status 0 ''ok''), holding ''T0'', network [] [],
      [InitLock, InitUnlock,
       ApiCall (text_request hello (holding ''T0'')) (Inr (reply_status 0 ''ok'')),
       PushLock, PushUnlock])"
proof -
  let ?n = "network [] [Inr (reply_status 0 ''ok'')]"
  have h1: "ensure (holding ''T0'') ?n = (None, holding ''T0'', ?n, [InitLock, InitUnlock])"
    by code_simp
  have h2: "api_replies ?n = Inr (reply_status 0 ''ok'') # []"
    by code_simp
  have h3: "unmarshal_status (reply_status 0 ''ok'') = Inr \<lparr>ErrCode = 0, ErrMsg = ''ok''\<rparr>"
    by code_simp
  have h4: "ErrCode \<lparr>ErrCode = 0, ErrMsg = ''ok''\<rparr> = 0"
    by simp
  have e: "?n\<lparr>api_replies := []\<rparr> = network [] []"
    by code_simp
  from send_accepted [OF h1 h2 h3 h4, of "text_request hello"] e show ?thesis
    by simp
qed

theorem send_provider_error_witness:
  "send (text_request hello) (holding ''T0'') (network [] [Inr (reply_status 40003 ''invalid userid'')]) =
     (Inl (ErrorString ''invalid userid''), holding ''T0'', network [] [],
      [InitLock, InitUnlock,
       ApiCall (text_request hello (holding ''T0'')) (Inr (reply_status 40003 ''invalid userid'')),
       PushLock, PushUnlock])"
proof -
  let ?n = "network [] [Inr (reply_status 40003 ''invalid userid'')]"
  have h1: "ensure (holding ''T0'') ?n = (None, holding ''T0'', ?n, [InitLock, InitUnlock])"
    by code_simp
  have h2: "api_replies ?n = Inr (reply_status 40003 ''invalid userid'') # []"
    by code_simp
  have h3: "unmarshal_status (reply_status 40003 ''invalid userid'') =
      Inr \<lparr>ErrCode = 40003, ErrMsg = ''invalid userid''\<rparr>"
    by code_simp
  have h4: "ErrCode \<lparr>ErrCode = 40003, ErrMsg = ''invalid userid''\<rparr> \<noteq> 0"
    by simp
  have h5: "\<not> credential_error (ErrCode \<lparr>ErrCode = 40003, ErrMsg = ''invalid userid''\<rparr>)"
    by (simp add: credential_error_def)
  have e: "?n\<lparr>api_replies := []\<rparr> = network [] []"
    by code_simp
  from send_provider_error [OF h1 h2 h3 h4 h5, of "text_request hello"] e show ?thesis
    by simp
qed

text \<open>
  Two rejections that differ in the provider's code only are returned as the same
  error value: the code is not part of it.
\<close>

theorem send_error_drops_code:
  "fst (send (text_request hello) (holding ''T0'') (network [] [Inr (reply_status 40003 ''invalid'')])) =
     Inl (ErrorString ''invalid'') \<and>
   fst (send (text_request hello) (holding ''T0'') (network [] [Inr (reply_status 60011 ''invalid'')])) =
     Inl (ErrorString ''invalid'')"
  by code_simp

subsection \<open>Recovery and alternation\<close>

text \<open>
  A refresh that succeeds without an \<open>access_token\<close> stores the empty string,
  so the dispatch that follows fetches again. The sender holds a credential and
  its flag is set; the token endpoint is not contacted before the first request
  and twice after the one credential error.
\<close>

theorem send_refetches_after_empty_token:
  "token_calls (before_first_api (snd (snd (snd
     (send (text_request hello) (holding ''T0'')
        (network [Inr (reply_status 0 ''ok''), Inr (reply_token ''T2'')]
                 [Inr (reply_status 42001 ''expired''), Inr (reply_status 0 ''ok'')])))))) = [] \<and>
   length (token_calls (snd (snd (snd
     (send (text_request hello) (holding ''T0'')
        (network [Inr (reply_status 0 ''ok''), Inr (reply_token ''T2'')]
                 [Inr (reply_status 42001 ''expired''), Inr (reply_status 0 ''ok'')])))))) = 2 \<and>
   isFirstAccessTokenErr (holding ''T0'')"
  by code_simp

theorem send_refreshes_and_resubmits_witness:
  "\<exists>res w' n' out tail.
     send (text_request hello) (holding ''T0'')
       (network [Inr (reply_token ''T1'')]
                [Inr (reply_status 42001 ''expired''), Inr (reply_status 0 ''ok'')]) =
       (res, w', n',
        [InitLock, InitUnlock,
         ApiCall (text_request hello (holding ''T0'')) (Inr (reply_status 42001 ''expired'')),
         PushLock, FlagRead True, Println TokenExpired, FlagWrite False,
         TokenCall (token_request (holding ''T0'')) (Inr (reply_token ''T1'')),
         PushUnlock, InitLock, InitUnlock,
         ApiCall (text_request hello
                    ((holding ''T0'')\<lparr>isFirstAccessTokenErr := False, accessToken := ''T1''\<rparr>)) out]
        @ tail) \<and>
     url (text_request hello
            ((holding ''T0'')\<lparr>isFirstAccessTokenErr := False, accessToken := ''T1''\<rparr>)) =
       ''https://qyapi.weixin.qq.com/cgi-bin/message/send?access_token=T1''"
proof -
  let ?n = "network [Inr (reply_token ''T1'')]
                [Inr (reply_status 42001 ''expired''), Inr (reply_status 0 ''ok'')]"
  let ?a = "\<lparr>Errcode = 0, Errmsg = ''ok'', AccessToken = ''T1'', ExpiresIn = 7200\<rparr>"
  let ?r = "\<lparr>ErrCode = 42001, ErrMsg = ''expired''\<rparr>"
  have h1: "ensure (holding ''T0'') ?n = (None, holding ''T0'', ?n, [InitLock, InitUnlock])"
    by code_simp
  have h2: "api_replies ?n = Inr (reply_status 42001 ''expired'') # [Inr (reply_status 0 ''ok'')]"
    by code_simp
  have h3: "unmarshal_status (reply_status 42001 ''expired'') = Inr ?r"
    by code_simp
  have h4: "credential_error (ErrCode ?r)"
    by (simp add: credential_error_def)
  have h5: "isFirstAccessTokenErr (holding ''T0'')"
    by code_simp
  have h6: "token_replies ?n = Inr (reply_token ''T1'') # []"
    by code_simp
  have h7: "unmarshal_accessResp (reply_token ''T1'') = Inr ?a"
    by code_simp
  have h8: "Errcode ?a = 0" by simp
  have h9: "AccessToken ?a \<noteq> []" by simp
  have c: "classify (ErrCode ?r) = [Println TokenExpired]"
    by (simp add: classify_def)
  from send_refreshes_and_resubmits [OF h1 h2 h3 h4 h5 h6 h7 h8 h9, of "text_request hello" hello]
  show ?thesis
    unfolding c by simp
qed



subsection \<open>Sequences of sends\<close>

text \<open>
  The first fetch of a new sender times out, and the next send contacts the token
  endpoint again: two contacts before the first request that uses a credential,
  with no credential error in between.
\<close>

theorem token_endpoint_contacted_again_after_failed_fetch:
  "length (token_calls (before_first_api (snd (snd
     (run [SendText hello, SendText hello] fresh
        (network [Inl (NetError ''timeout''), Inr (reply_token ''T1'')]
                 [Inr (reply_status 0 ''ok'')])))))) = 2"
  by code_simp

theorem fetch_only_when_absent_or_rejected_witness:
  "audit (False, False) (snd (snd
     (run [SendText hello, SendFile report] (New ''ww1'' ''s3cret'')
        (network [Inr (reply_token ''T1''), Inr (reply_token ''T2'')]
           [Inr (reply_status 0 ''ok''), Inr (reply_status 42001 ''expired''),
            Inr (reply_media ''M1''), Inr (reply_status 0 ''ok'')])))) \<noteq> None \<and>
   length (stored_fetches (until_cred_error (snd (snd
     (run [SendText hello, SendFile report] (New ''ww1'' ''s3cret'')
        (network [Inr (reply_token ''T1''), Inr (reply_token ''T2'')]
           [Inr (reply_status 0 ''ok''), Inr (reply_status 42001 ''expired''),
            Inr (reply_media ''M1''), Inr (reply_status 0 ''ok'')])))))) \<le> 1 \<and>
   length (token_calls (snd (snd
     (run [SendText hello, SendFile report] (New ''ww1'' ''s3cret'')
        (network [Inr (reply_token ''T1''), Inr (reply_token ''T2'')]
           [Inr (reply_status 0 ''ok''), Inr (reply_status 42001 ''expired''),
            Inr (reply_media ''M1''), Inr (reply_status 0 ''ok'')]))))) = 2"
proof -
  have t: "length (token_calls (snd (snd
     (run [SendText hello, SendFile report] (New ''ww1'' ''s3cret'')
        (network [Inr (reply_token ''T1''), Inr (reply_token ''T2'')]
           [Inr (reply_status 0 ''ok''), Inr (reply_status 42001 ''expired''),
            Inr (reply_media ''M1''), Inr (reply_status 0 ''ok'')]))))) = 2"
    by code_simp
  from fetch_only_when_absent_or_rejected [of "[SendText hello, SendFile report]" "''ww1''" "''s3cret''"
      "network [Inr (reply_token ''T1''), Inr (reply_token ''T2'')]
           [Inr (reply_status 0 ''ok''), Inr (reply_status 42001 ''expired''),
            Inr (reply_media ''M1''), Inr (reply_status 0 ''ok'')]"] t
  show ?thesis by blast
qed

subsection \<open>File messages\<close>

theorem File_happy_path_witness:
  "\<exists>ev. File report (holding ''T0'')
          (network [] [Inr (reply_media ''M1''), Inr (reply_status 0 ''ok'')]) =
          (Returns None, holding ''T0'', network [] [], ev) \<and>
        api_calls ev =
          [\<lparr>url = ''https://qyapi.weixin.qq.com/cgi-bin/media/upload?access_token=T0&type=file'',
            query = [],
            headers = [(''content-type'', ''multipart/form-data''),
                       (''accept'', ''application/json'')],
            payload = FormFile ''media'' ''test.txt'' ''data''\<rparr>,
           \<lparr>url = ''https://qyapi.weixin.qq.com/cgi-bin/message/send?access_token=T0'',
            query = [],
            headers = [(''content-type'', ''application/json''),
                       (''accept'', ''application/json'')],
            payload = JsonBody (JObj
              [(''touser'', JStr ''Pony''), (''msgtype'', JStr ''file''),
               (''agentid'', JInt 1000002),
               (''file'', JObj [(''media_id'', JStr ''M1''), (''title'', JStr []),
                                (''description'', JStr [])]),
               (''safe'', JInt 0)])\<rparr>] \<and>
        token_calls ev = []"
proof -
  let ?n = "network [] [Inr (reply_media ''M1''), Inr (reply_status 0 ''ok'')]"
  let ?r = "\<lparr>ErrCode = 0, ErrMsg = ''ok''\<rparr>"
  let ?m = "[(''errcode'', JInt 0), (''errmsg'', JStr ''ok''),
             (''type'', JStr ''file''), (''media_id'', JStr ''M1'')]"
  have h1: "Filetype report \<in> {IMAGE, VOICE, VIDEO, FILE}"
    by (simp add: report_def)
  have h2: "ensure (holding ''T0'') ?n = (None, holding ''T0'', ?n, [InitLock, InitUnlock])"
    by code_simp
  have h3: "api_replies ?n = Inr (reply_media ''M1'') # Inr (reply_status 0 ''ok'') # []"
    by code_simp
  have h4: "unmarshal_status (reply_media ''M1'') = Inr ?r" by code_simp
  have h5: "ErrCode ?r = 0" by simp
  have h6: "unmarshal_map (reply_media ''M1'') = Inr ?m" by code_simp
  have h7: "map_index ?m ''media_id'' = Some (JStr ''M1'')" by code_simp
  have h8: "ensure (holding ''T0'') (?n\<lparr>api_replies := Inr (reply_status 0 ''ok'') # []\<rparr>) =
      (None, holding ''T0'', network [] [Inr (reply_status 0 ''ok'')], [InitLock, InitUnlock])"
    by code_simp
  have h9: "unmarshal_status (reply_status 0 ''ok'') = Inr ?r" by code_simp
  have e: "(network [] [Inr (reply_status 0 ''ok'')])\<lparr>api_replies := []\<rparr> = network [] []"
    by code_simp
  have f: "FileInfo.Content report = ''data''" "Filetype report = ''file''"
    "Filename report = ''test.txt''"
    "FileInfo.Touser report = ''Pony''" "FileInfo.AgentID report = 1000002"
    "Title report = []" "Description report = []"
    by (simp_all add: report_def FILE_def)
  have a: "accessToken (holding ''T0'') = ''T0''"
    by code_simp
  from File_happy_path [OF h1 h2 h3 h4 h5 h6 h7 h8 h9 h5]
  show ?thesis
    unfolding e f a by simp
qed

text \<open>
  An upload response with \<open>errcode\<close> 0 and a string \<open>media_id\<close> that also
  holds the number \<open>1e999\<close>: \<^verbatim>\<open>send\<close> accepts it, decoding it into the map
  fails (lines 240-242), and \<^verbatim>\<open>File\<close> returns that error after the upload
  alone.
\<close>

theorem File_stops_on_number_outside_float64:
  "unmarshal_status reply_media_overflow = Inr \<lparr>ErrCode = 0, ErrMsg = ''ok''\<rparr> \<and>
   fst (send (upload_request ''data'' FILE ''test.txt'') (holding ''T0'')
          (network [] [Inr reply_media_overflow, Inr (reply_status 0 ''ok'')])) =
     Inr (Json (JObj [(''errcode'', JInt 0), (''errmsg'', JStr ''ok''),
                      (''media_id'', JStr ''M1''), (''created_at'', JReal 1 999)])) \<and>
   fst (File report (holding ''T0'')
          (network [] [Inr reply_media_overflow, Inr (reply_status 0 ''ok'')])) =
     Returns (Some (UnmarshalTypeError ''number'')) \<and>
   length (api_calls (snd (snd (snd
     (File report (holding ''T0'')
        (network [] [Inr reply_media_overflow, Inr (reply_status 0 ''ok'')])))))) = 1"
  by code_simp

text \<open>
  C1. The specification has an accepted upload response without a string
  \<open>media_id\<close> make \<^verbatim>\<open>getMediaID\<close> return an error. The source asserts the type
  without checking (line 243): with the field absent, and with a number in its
  place, the call panics.
\<close>

theorem getMediaID_panics_without_media_id:
  "fst (getMediaID ''data'' FILE ''test.txt'' (holding ''T0'')
          (network [] [Inr (reply_status 0 ''ok'')])) = Panics InterfaceConversion \<and>
   fst (getMediaID ''data'' FILE ''test.txt'' (holding ''T0'')
          (network [] [Inr (Json (JObj [(''errcode'', JInt 0), (''media_id'', JInt 7)]))])) =
     Panics InterfaceConversion"
  by code_simp

subsection \<open>The body of a text message\<close>

text \<open>
  C5. The specification fixes \<open>safe\<close> at the number 0. The body \<^verbatim>\<open>Text\<close> builds
  has the documented fields and nesting, but its \<open>safe\<close> is the string
  \<open>0\<close> (line 160), where \<^verbatim>\<open>File\<close> writes the number (line 276).
\<close>

theorem text_request_safe_is_a_string:
  "payload (text_request hello (holding ''T0'')) =
     JsonBody (JObj
       [(''touser'', JStr ''Pony''), (''msgtype'', JStr ''text''), (''agentid'', JInt 1000002),
        (''text'', JObj [(''content'', JStr ''test'')]),
        (''safe'', JStr ''0'')])"
  by code_simp

subsection \<open>The push lock and the flag\<close>

text \<open>
  C9. The specification has every access to the flag happen under the push lock.
  On two credential errors in a row the second recovery releases the lock
  (line 129) and writes the flag afterwards (line 130): the lock operations and
  flag accesses of that dispatch, in program order, and the verdict of \<open>guarded\<close>.
\<close>

theorem flag_written_after_unlock:
  "filter is_sync (snd (snd (snd
     (send (text_request hello) (holding ''T0'')
        (network [Inr (reply_token ''T1'')]
           [Inr (reply_status 42001 ''expired''), Inr (reply_status 42001 ''expired''),
            Inr (reply_status 0 ''ok'')]))))) =
     [InitLock, InitUnlock, PushLock, FlagRead True, FlagWrite False, PushUnlock,
      InitLock, InitUnlock, PushLock, FlagRead False, PushUnlock, FlagWrite True,
      InitLock, InitUnlock, PushLock, PushUnlock] \<and>
   \<not> guarded False (snd (snd (snd
     (send (text_request hello) (holding ''T0'')
        (network [Inr (reply_token ''T1'')]
           [Inr (reply_status 42001 ''expired''), Inr (reply_status 42001 ''expired''),
            Inr (reply_status 0 ''ok'')])))))"
  by code_simp

end
